theory Spec2Isabelle
  imports Complex_Main "HOL-Library.AList"
begin

section \<open>Python values\<close>

text \<open>
  The module \<open>osnap/analytics/cluster.py\<close> is a set of adapter functions over external
  clustering libraries. The values that travel through it are the caller's arguments
  (numbers, strings, booleans, \<open>None\<close>, array-likes, objects with attributes such as a
  PySAL \<open>W\<close> or a pandas \<open>DataFrame\<close>) and what the libraries return. A Python float is
  a finite number or one of \<open>inf\<close>, \<open>-inf\<close>, \<open>nan\<close>: the source uses \<open>np.inf\<close> and
  \<open>np.infty\<close> and compares floats with them, so the special values are part of the model.
\<close>

datatype pyfloat = Fin real | PosInf | NegInf | NaN

datatype pyval =
    VNone
  | VBool bool
  | VInt int
  | VFloat pyfloat
  | VStr string
  | VList "pyval list"
  | VObj string "(string \<times> pyval) list"

type_synonym kwargs = "(string \<times> pyval) list"

text \<open>
  Exceptions. \<open>LibraryError\<close> is whatever an external library raises; the other three
  are raised by the Python of the module itself.
\<close>

datatype exn = TypeError | AttributeError | UnboundLocalError | LibraryError string

subsection \<open>Float comparison and the arithmetic the module uses\<close>

fun float_lt :: "pyfloat \<Rightarrow> pyfloat \<Rightarrow> bool" where
  "float_lt NaN _ = False"
| "float_lt _ NaN = False"
| "float_lt (Fin a) (Fin b) = (a < b)"
| "float_lt (Fin _) PosInf = True"
| "float_lt (Fin _) NegInf = False"
| "float_lt PosInf _ = False"
| "float_lt NegInf NegInf = False"
| "float_lt NegInf _ = True"

fun as_number :: "pyval \<Rightarrow> pyfloat option" where
  "as_number (VInt n) = Some (Fin (of_int n))"
| "as_number (VBool b) = Some (Fin (if b then 1 else 0))"
| "as_number (VFloat f) = Some f"
| "as_number _ = None"

text \<open>\<open>a < b\<close> on two Python values: defined on numbers, a \<open>TypeError\<close> otherwise.\<close>

definition py_lt :: "pyval \<Rightarrow> pyval \<Rightarrow> exn + bool" where
  "py_lt a b =
     (case (as_number a, as_number b) of
        (Some x, Some y) \<Rightarrow> Inr (float_lt x y)
      | _ \<Rightarrow> Inl TypeError)"

text \<open>
  \<open>range(1, max_clusters + 1)\<close>: the sum and \<open>range\<close> need an integer (a \<open>bool\<close> is one);
  a float passes \<open>+ 1\<close> and is refused by \<open>range\<close>, everything else is refused by \<open>+\<close>,
  each time with a \<open>TypeError\<close>.
\<close>

fun as_int :: "pyval \<Rightarrow> int option" where
  "as_int (VInt n) = Some n"
| "as_int (VBool b) = Some (if b then 1 else 0)"
| "as_int _ = None"

definition range_from_1 :: "pyval \<Rightarrow> exn + int list" where
  "range_from_1 max_clusters =
     (case as_int max_clusters of
        None \<Rightarrow> Inl TypeError
      | Some m \<Rightarrow> (let mx = m + 1 in Inr [1..mx - 1]))"

text \<open>Attribute access on an argument value, as in \<open>w.sparse\<close> and \<open>X.values\<close>.\<close>

fun getattr_val :: "pyval \<Rightarrow> string \<Rightarrow> exn + pyval" where
  "getattr_val (VObj c as) name =
     (case map_of as name of None \<Rightarrow> Inl AttributeError | Some v \<Rightarrow> Inr v)"
| "getattr_val _ name = Inl AttributeError"

section \<open>The world of an adapter call\<close>

text \<open>
  A model object of an external library lives in a store: the adapter receives a
  reference from the constructor, calls methods on it, sets attributes on it and returns
  the reference, so that identity (the same object, not a copy) can be stated.
  An object is its class name and its attribute dictionary.
\<close>

type_synonym ref = nat

record obj =
  cls :: string
  attrs :: "(string \<times> pyval) list"

text \<open>
  What the module does to the outside is recorded as a list of events, in order: a
  constructor call \<open>C(*args, **kwargs)\<close> with the reference of the new object, a method
  call \<open>obj.m(*args, **kwargs)\<close>, an attribute assignment \<open>obj.name = v\<close> and a call of
  \<open>warnings.warn\<close>.
\<close>

datatype event =
    Construct string "pyval list" kwargs ref
  | Invoke ref string "pyval list" kwargs
  | SetAttr ref string pyval
  | Warn string

text \<open>
  The external libraries are a parameter: the constructor of each class gives the new
  object's attributes, a method of a class gives its return value (or the message of
  the exception it raises) and the receiver's attributes afterwards. Both may read and
  change the libraries' own state \<open>'e\<close> (numpy's global random state, for one, which
  scikit-learn uses when no seed is given).
\<close>

record 'e library =
  lib_init :: "string \<Rightarrow> pyval list \<Rightarrow> kwargs \<Rightarrow> 'e \<Rightarrow> (string + kwargs) \<times> 'e"
  lib_method :: "string \<Rightarrow> string \<Rightarrow> pyval list \<Rightarrow> kwargs \<Rightarrow> kwargs \<Rightarrow> 'e
                   \<Rightarrow> (string + pyval) \<times> kwargs \<times> 'e"

record 'e world =
  heap :: "obj list"
  events :: "event list"
  lib_state :: "'e"

type_synonym ('e, 'a) prog = "'e world \<Rightarrow> (exn + 'a) \<times> 'e world"

definition ret :: "'a \<Rightarrow> ('e, 'a) prog" where
  "ret x s = (Inr x, s)"

definition raise :: "exn \<Rightarrow> ('e, 'a) prog" where
  "raise e s = (Inl e, s)"

definition bnd :: "('e, 'a) prog \<Rightarrow> ('a \<Rightarrow> ('e, 'b) prog) \<Rightarrow> ('e, 'b) prog" where
  "bnd m f s = (case m s of (Inl e, s') \<Rightarrow> (Inl e, s') | (Inr x, s') \<Rightarrow> f x s')"

definition lift :: "exn + 'a \<Rightarrow> ('e, 'a) prog" where
  "lift r s = (r, s)"

definition log :: "event \<Rightarrow> 'e world \<Rightarrow> 'e world" where
  "log ev s = s\<lparr>events := events s @ [ev]\<rparr>"

definition warn :: "string \<Rightarrow> ('e, unit) prog" where
  "warn msg s = (Inr (), log (Warn msg) s)"

text \<open>\<open>C(*args, **kwargs)\<close>: the new object gets the next free reference.\<close>

definition construct :: "'e library \<Rightarrow> string \<Rightarrow> pyval list \<Rightarrow> kwargs \<Rightarrow> ('e, ref) prog" where
  "construct L c args kws s =
     (let r = length (heap s);
          s1 = log (Construct c args kws r) s
      in case lib_init L c args kws (lib_state s1) of
           (Inl msg, x) \<Rightarrow> (Inl (LibraryError msg), s1\<lparr>lib_state := x\<rparr>)
         | (Inr as, x) \<Rightarrow>
             (Inr r, s1\<lparr>heap := heap s1 @ [\<lparr>cls = c, attrs = as\<rparr>], lib_state := x\<rparr>))"

text \<open>
  \<open>obj.m(*args, **kwargs)\<close>. A reference outside the store does not arise (references
  come from \<open>construct\<close>); the model answers it with an \<open>AttributeError\<close>.
\<close>

definition invoke :: "'e library \<Rightarrow> ref \<Rightarrow> string \<Rightarrow> pyval list \<Rightarrow> kwargs \<Rightarrow> ('e, pyval) prog" where
  "invoke L r m args kws s =
     (let s1 = log (Invoke r m args kws) s in
      if r < length (heap s1) then
        (let ob = heap s1 ! r in
         case lib_method L (cls ob) m args kws (attrs ob) (lib_state s1) of
           (res, as, x) \<Rightarrow>
             ((case res of Inl msg \<Rightarrow> Inl (LibraryError msg) | Inr v \<Rightarrow> Inr v),
              s1\<lparr>heap := (heap s1)[r := ob\<lparr>attrs := as\<rparr>], lib_state := x\<rparr>))
      else (Inl AttributeError, s1))"

definition getattr :: "ref \<Rightarrow> string \<Rightarrow> ('e, pyval) prog" where
  "getattr r name s =
     (if r < length (heap s) then
        (case map_of (attrs (heap s ! r)) name of
           None \<Rightarrow> (Inl AttributeError, s)
         | Some v \<Rightarrow> (Inr v, s))
      else (Inl AttributeError, s))"

definition setattr :: "ref \<Rightarrow> string \<Rightarrow> pyval \<Rightarrow> ('e, unit) prog" where
  "setattr r name v s =
     (let s1 = log (SetAttr r name v) s in
      if r < length (heap s1) then
        (let ob = heap s1 ! r in
         (Inr (), s1\<lparr>heap := (heap s1)[r := ob\<lparr>attrs := AList.update name v (attrs ob)\<rparr>]\<rparr>))
      else (Inl AttributeError, s1))"

section \<open>The adapters\<close>

text \<open>
  Each function of the module, with its parameters in the order of its \<open>def\<close> line and
  the \<open>**kwargs\<close> dictionary last. Keyword arguments of a library call are listed in
  the order the source writes them.
\<close>

subsection \<open>scikit-learn and hdbscan models without spatial weights\<close>

definition ward :: "'e library \<Rightarrow> pyval \<Rightarrow> pyval \<Rightarrow> kwargs \<Rightarrow> ('e, ref) prog" where
  "ward L X n_clusters kws =
     bnd (construct L ''AgglomerativeClustering'' []
            [(''n_clusters'', n_clusters), (''linkage'', VStr ''ward'')]) (\<lambda>model.
     bnd (invoke L model ''fit'' [X] []) (\<lambda>_.
     ret model))"

definition kmeans :: "'e library \<Rightarrow> pyval \<Rightarrow> pyval \<Rightarrow> pyval \<Rightarrow> kwargs \<Rightarrow> ('e, ref) prog" where
  "kmeans L X n_clusters seed kws =
     bnd (construct L ''KMeans'' [n_clusters] [(''random_state'', seed)]) (\<lambda>model.
     bnd (invoke L model ''fit'' [X] []) (\<lambda>_.
     ret model))"

definition affinity_propagation ::
  "'e library \<Rightarrow> pyval \<Rightarrow> pyval \<Rightarrow> pyval \<Rightarrow> pyval \<Rightarrow> pyval \<Rightarrow> kwargs \<Rightarrow> ('e, ref) prog" where
  "affinity_propagation L X damping preference verbose max_iter kws =
     bnd (construct L ''AffinityPropagation'' []
            [(''preference'', preference), (''damping'', damping), (''verbose'', verbose)])
       (\<lambda>model.
     bnd (invoke L model ''fit'' [X] []) (\<lambda>_.
     ret model))"

definition spectral ::
  "'e library \<Rightarrow> pyval \<Rightarrow> pyval \<Rightarrow> pyval \<Rightarrow> pyval \<Rightarrow> kwargs \<Rightarrow> ('e, ref) prog" where
  "spectral L X n_clusters n_jobs affinity kws =
     bnd (construct L ''SpectralClustering'' []
            [(''n_clusters'', n_clusters), (''n_jobs'', n_jobs), (''affinity'', affinity)])
       (\<lambda>model.
     bnd (invoke L model ''fit'' [X] []) (\<lambda>_.
     ret model))"

subsection \<open>Gaussian mixture\<close>

text \<open>
  The text of the warning: the source's string literal, its lines joined by the
  backslashes at their ends. Character 96 is the backquote.
\<close>

definition reproducibility_warning :: string where
  "reproducibility_warning =
     ''Note: Gaussian Mixture Clustering is probabilistic--'' @
     ''cluster labels may be different for different runs. If you need consistency,'' @
     ''you should set the '' @ [char_of (96::nat)] @ ''random_state'' @ [char_of (96::nat)] @
     '' parameter''"

text \<open>
  The local variables of the model-selection loop. \<open>best_gmm\<close> is unbound (\<open>None\<close>
  here) until the first assignment.
\<close>

record gm_vars =
  lowest_bic :: pyval
  bic :: "pyval list"
  best_gmm :: "ref option"

definition cv_types :: "string list" where
  "cv_types = [''spherical'', ''tied'', ''diag'', ''full'']"

text \<open>The body of the inner loop, for one covariance type and one number of components.\<close>

definition gm_step ::
  "'e library \<Rightarrow> pyval \<Rightarrow> pyval \<Rightarrow> string \<Rightarrow> int \<Rightarrow> gm_vars \<Rightarrow> ('e, gm_vars) prog" where
  "gm_step L X random_state cv_type n_components v =
     bnd (construct L ''GaussianMixture'' []
            [(''n_components'', VInt n_components), (''random_state'', random_state),
             (''covariance_type'', VStr cv_type)]) (\<lambda>gmm.
     bnd (invoke L gmm ''fit'' [X] []) (\<lambda>_.
     bnd (invoke L gmm ''bic'' [X] []) (\<lambda>b.
     (let bic' = bic v @ [b] in
      bnd (lift (py_lt (last bic') (lowest_bic v))) (\<lambda>lower.
      ret (if lower
           then v\<lparr>lowest_bic := last bic', bic := bic', best_gmm := Some gmm\<rparr>
           else v\<lparr>bic := bic'\<rparr>))))))"

fun gm_inner ::
  "'e library \<Rightarrow> pyval \<Rightarrow> pyval \<Rightarrow> string \<Rightarrow> int list \<Rightarrow> gm_vars \<Rightarrow> ('e, gm_vars) prog" where
  "gm_inner L X random_state cv_type [] v s = (Inr v, s)"
| "gm_inner L X random_state cv_type (n # ns) v s =
     (case gm_step L X random_state cv_type n v s of
        (Inl e, s') \<Rightarrow> (Inl e, s')
      | (Inr v', s') \<Rightarrow> gm_inner L X random_state cv_type ns v' s')"

fun gm_outer ::
  "'e library \<Rightarrow> pyval \<Rightarrow> pyval \<Rightarrow> string list \<Rightarrow> int list \<Rightarrow> gm_vars \<Rightarrow> ('e, gm_vars) prog" where
  "gm_outer L X random_state [] ns v s = (Inr v, s)"
| "gm_outer L X random_state (cv_type # cvs) ns v s =
     (case gm_inner L X random_state cv_type ns v s of
        (Inl e, s') \<Rightarrow> (Inl e, s')
      | (Inr v', s') \<Rightarrow> gm_outer L X random_state cvs ns v' s')"

text \<open>
  The branch \<open>best_model is True\<close>. \<open>bic = np.array(bic)\<close> after the loop rebinds a
  local that is not read again and is left out; reading \<open>best_gmm\<close> while it is unbound
  raises \<open>UnboundLocalError\<close>.
\<close>

definition gm_select :: "'e library \<Rightarrow> pyval \<Rightarrow> pyval \<Rightarrow> pyval \<Rightarrow> ('e, ref) prog" where
  "gm_select L X max_clusters random_state =
     bnd (lift (range_from_1 max_clusters)) (\<lambda>n_components_range.
     bnd (gm_outer L X random_state cv_types n_components_range
            \<lparr>lowest_bic = VFloat PosInf, bic = [], best_gmm = None\<rparr>) (\<lambda>v.
     (case best_gmm v of
        None \<Rightarrow> raise UnboundLocalError
      | Some gmm \<Rightarrow> ret gmm)))"

definition gaussian_mixture ::
  "'e library \<Rightarrow> pyval \<Rightarrow> pyval \<Rightarrow> pyval \<Rightarrow> pyval \<Rightarrow> pyval \<Rightarrow> pyval \<Rightarrow> kwargs
     \<Rightarrow> ('e, ref) prog" where
  "gaussian_mixture L X n_clusters covariance_type best_model max_clusters random_state kws =
     bnd (if random_state = VNone then warn reproducibility_warning else ret ()) (\<lambda>_.
     bnd (if best_model = VBool True
          then gm_select L X max_clusters random_state
          else construct L ''GaussianMixture'' []
                 [(''n_components'', n_clusters), (''random_state'', random_state),
                  (''covariance_type'', covariance_type)]) (\<lambda>model.
     bnd (invoke L model ''fit'' [X] []) (\<lambda>_.
     bnd (invoke L model ''predict'' [X] []) (\<lambda>labels.
     bnd (setattr model ''labels_'' labels) (\<lambda>_.
     ret model)))))"

definition hdbscan ::
  "'e library \<Rightarrow> pyval \<Rightarrow> pyval \<Rightarrow> pyval \<Rightarrow> kwargs \<Rightarrow> ('e, ref) prog" where
  "hdbscan L X min_cluster_size gen_min_span_tree kws =
     bnd (construct L ''HDBSCAN'' [] [(''min_cluster_size'', min_cluster_size)]) (\<lambda>model.
     bnd (invoke L model ''fit'' [X] []) (\<lambda>_.
     ret model))"

subsection \<open>Models with spatial weights\<close>

definition ward_spatial ::
  "'e library \<Rightarrow> pyval \<Rightarrow> pyval \<Rightarrow> pyval \<Rightarrow> kwargs \<Rightarrow> ('e, ref) prog" where
  "ward_spatial L X w n_clusters kws =
     bnd (lift (getattr_val w ''sparse'')) (\<lambda>sparse.
     bnd (construct L ''AgglomerativeClustering'' []
            [(''n_clusters'', n_clusters), (''connectivity'', sparse),
             (''linkage'', VStr ''ward'')]) (\<lambda>model.
     bnd (invoke L model ''fit'' [X] []) (\<lambda>_.
     ret model)))"

definition spenc ::
  "'e library \<Rightarrow> pyval \<Rightarrow> pyval \<Rightarrow> pyval \<Rightarrow> pyval \<Rightarrow> kwargs \<Rightarrow> ('e, ref) prog" where
  "spenc L X w n_clusters gamma kws =
     bnd (construct L ''SPENC'' [] [(''n_clusters'', n_clusters), (''gamma'', gamma)]) (\<lambda>model.
     bnd (lift (getattr_val w ''sparse'')) (\<lambda>sparse.
     bnd (invoke L model ''fit'' [X, sparse] []) (\<lambda>_.
     ret model)))"

definition skater ::
  "'e library \<Rightarrow> pyval \<Rightarrow> pyval \<Rightarrow> pyval \<Rightarrow> pyval \<Rightarrow> pyval \<Rightarrow> pyval \<Rightarrow> kwargs
     \<Rightarrow> ('e, ref) prog" where
  "skater L X w n_clusters floor' trace islands kws =
     bnd (construct L ''Spanning_Forest'' [] []) (\<lambda>model.
     bnd (invoke L model ''fit'' [n_clusters, w]
            [(''data'', X), (''quorum'', floor'), (''trace'', trace)]) (\<lambda>_.
     bnd (getattr model ''current_labels_'') (\<lambda>labels.
     bnd (setattr model ''labels_'' labels) (\<lambda>_.
     ret model))))"

definition azp :: "'e library \<Rightarrow> pyval \<Rightarrow> pyval \<Rightarrow> pyval \<Rightarrow> kwargs \<Rightarrow> ('e, ref) prog" where
  "azp L X w n_clusters kws =
     bnd (construct L ''AZP'' [] []) (\<lambda>model.
     bnd (invoke L model ''fit_from_w'' []
            [(''attr'', X), (''w'', w), (''n_regions'', n_clusters)]) (\<lambda>_.
     ret model))"

definition max_p ::
  "'e library \<Rightarrow> pyval \<Rightarrow> pyval \<Rightarrow> pyval \<Rightarrow> pyval \<Rightarrow> kwargs \<Rightarrow> ('e, ref) prog" where
  "max_p L X w threshold_variable threshold kws =
     bnd (construct L ''MaxPRegionsHeu'' [] []) (\<lambda>model.
     bnd (lift (getattr_val X ''values'')) (\<lambda>vals.
     bnd (invoke L model ''fit_from_w'' [w, vals, threshold_variable, threshold] []) (\<lambda>_.
     ret model)))"

section \<open>Calling an adapter by name\<close>

text \<open>
  A signature is the list of named parameters with their defaults, in order; every
  function of the module ends its parameter list with \<open>**kwargs\<close>. Binding follows
  Python: positional arguments fill the parameters from the left (too many is a
  \<open>TypeError\<close>, there is no \<open>*args\<close>); a keyword that names a parameter already filled is
  a \<open>TypeError\<close>; a parameter left without a value takes its default, and has to have
  one; keywords that name no parameter go to \<open>kwargs\<close>. The caller's keywords are a
  dictionary, written here as an association list.
\<close>

type_synonym signature = "(string \<times> pyval option) list"

fun bind_rest :: "signature \<Rightarrow> kwargs \<Rightarrow> exn + pyval list" where
  "bind_rest [] kw = Inr []"
| "bind_rest ((name, dflt) # ps) kw =
     (case (case map_of kw name of Some v \<Rightarrow> Some v | None \<Rightarrow> dflt) of
        None \<Rightarrow> Inl TypeError
      | Some v \<Rightarrow>
          (case bind_rest ps kw of
             Inl e \<Rightarrow> Inl e
           | Inr vs \<Rightarrow> Inr (v # vs)))"

definition bind_args :: "signature \<Rightarrow> pyval list \<Rightarrow> kwargs \<Rightarrow> exn + pyval list \<times> kwargs" where
  "bind_args sig pos kw =
     (if length sig < length pos then Inl TypeError
      else if \<exists>k \<in> set (take (length pos) (map fst sig)). map_of kw k \<noteq> None then Inl TypeError
      else
        (case bind_rest (drop (length pos) sig) kw of
           Inl e \<Rightarrow> Inl e
         | Inr vs \<Rightarrow> Inr (pos @ vs, filter (\<lambda>(k, v). k \<notin> set (map fst sig)) kw)))"

text \<open>
  The functions the module defines, in the order of the file: name, signature, and the
  function applied to the bound parameter values and \<open>kwargs\<close>.
\<close>

type_synonym 'e adapter = "'e library \<Rightarrow> pyval list \<Rightarrow> kwargs \<Rightarrow> ('e, ref) prog"

definition cluster_module :: "(string \<times> signature \<times> 'e adapter) list" where
  "cluster_module =
     [(''ward'',
       [(''X'', None), (''n_clusters'', Some (VInt 5))],
       (\<lambda>L vs kws. case vs of [X, n_clusters] \<Rightarrow> ward L X n_clusters kws
                             | _ \<Rightarrow> raise TypeError)),
      (''kmeans'',
       [(''X'', None), (''n_clusters'', Some (VInt 5)), (''seed'', Some VNone)],
       (\<lambda>L vs kws. case vs of [X, n_clusters, seed] \<Rightarrow> kmeans L X n_clusters seed kws
                             | _ \<Rightarrow> raise TypeError)),
      (''affinity_propagation'',
       [(''X'', None), (''damping'', Some (VFloat (Fin 0.8))),
        (''preference'', Some (VInt (- 1000))), (''verbose'', Some (VBool False)),
        (''max_iter'', Some (VInt 500))],
       (\<lambda>L vs kws. case vs of
            [X, damping, preference, verbose, max_iter] \<Rightarrow>
              affinity_propagation L X damping preference verbose max_iter kws
          | _ \<Rightarrow> raise TypeError)),
      (''spectral'',
       [(''X'', None), (''n_clusters'', Some (VInt 5)), (''n_jobs'', Some (VInt (- 1))),
        (''affinity'', Some (VStr ''rbf''))],
       (\<lambda>L vs kws. case vs of
            [X, n_clusters, n_jobs, affinity] \<Rightarrow> spectral L X n_clusters n_jobs affinity kws
          | _ \<Rightarrow> raise TypeError)),
      (''gaussian_mixture'',
       [(''X'', None), (''n_clusters'', Some (VInt 5)),
        (''covariance_type'', Some (VStr ''full'')), (''best_model'', Some (VBool False)),
        (''max_clusters'', Some (VInt 10)), (''random_state'', Some VNone)],
       (\<lambda>L vs kws. case vs of
            [X, n_clusters, covariance_type, best_model, max_clusters, random_state] \<Rightarrow>
              gaussian_mixture L X n_clusters covariance_type best_model max_clusters
                random_state kws
          | _ \<Rightarrow> raise TypeError)),
      (''hdbscan'',
       [(''X'', None), (''min_cluster_size'', Some (VInt 5)),
        (''gen_min_span_tree'', Some (VBool True))],
       (\<lambda>L vs kws. case vs of
            [X, min_cluster_size, gen_min_span_tree] \<Rightarrow>
              hdbscan L X min_cluster_size gen_min_span_tree kws
          | _ \<Rightarrow> raise TypeError)),
      (''ward_spatial'',
       [(''X'', None), (''w'', None), (''n_clusters'', Some (VInt 5))],
       (\<lambda>L vs kws. case vs of [X, w, n_clusters] \<Rightarrow> ward_spatial L X w n_clusters kws
                             | _ \<Rightarrow> raise TypeError)),
      (''spenc'',
       [(''X'', None), (''w'', None), (''n_clusters'', Some (VInt 5)),
        (''gamma'', Some (VInt 1))],
       (\<lambda>L vs kws. case vs of [X, w, n_clusters, gamma] \<Rightarrow> spenc L X w n_clusters gamma kws
                             | _ \<Rightarrow> raise TypeError)),
      (''skater'',
       [(''X'', None), (''w'', None), (''n_clusters'', Some (VInt 5)),
        (''floor'', Some (VFloat NegInf)), (''trace'', Some (VBool False)),
        (''islands'', Some (VStr ''increase''))],
       (\<lambda>L vs kws. case vs of
            [X, w, n_clusters, floor', trace, islands] \<Rightarrow>
              skater L X w n_clusters floor' trace islands kws
          | _ \<Rightarrow> raise TypeError)),
      (''azp'',
       [(''X'', None), (''w'', None), (''n_clusters'', Some (VInt 5))],
       (\<lambda>L vs kws. case vs of [X, w, n_clusters] \<Rightarrow> azp L X w n_clusters kws
                             | _ \<Rightarrow> raise TypeError)),
      (''max_p'',
       [(''X'', None), (''w'', None), (''threshold_variable'', Some (VStr ''count'')),
        (''threshold'', Some (VInt 10))],
       (\<lambda>L vs kws. case vs of
            [X, w, threshold_variable, threshold] \<Rightarrow>
              max_p L X w threshold_variable threshold kws
          | _ \<Rightarrow> raise TypeError))]"

text \<open>
  \<open>getattr(cluster, name)(*pos, **kw)\<close>: a name the module does not define is an
  \<open>AttributeError\<close>; a call that cannot be bound is a \<open>TypeError\<close> and runs nothing.
\<close>

definition call_adapter ::
  "'e library \<Rightarrow> string \<Rightarrow> pyval list \<Rightarrow> kwargs \<Rightarrow> ('e, ref) prog" where
  "call_adapter L name pos kw s =
     (case map_of cluster_module name of
        None \<Rightarrow> (Inl AttributeError, s)
      | Some (sig, f) \<Rightarrow>
          (case bind_args sig pos kw of
             Inl e \<Rightarrow> (Inl e, s)
           | Inr (vs, extra) \<Rightarrow> f L vs extra s))"


section \<open>Concrete libraries and arguments for evaluation\<close>

text \<open>
  A small stand-in for the external libraries, used to run the adapters on concrete
  inputs. Constructors keep their keyword arguments as attributes, as scikit-learn
  estimators do; \<open>fit\<close> and \<open>fit_from_w\<close> store labels (\<open>current_labels_\<close> for the SKATER
  forest, nothing for a Gaussian mixture, \<open>labels_\<close> for the others) and count the fits
  in the library state; \<open>predict\<close> returns labels and \<open>bic\<close> a number.
\<close>

definition demo_labels :: pyval where
  "demo_labels = VList [VInt 0, VInt 1, VInt 0]"

definition demo_method ::
  "pyval \<Rightarrow> string \<Rightarrow> string \<Rightarrow> pyval list \<Rightarrow> kwargs \<Rightarrow> kwargs \<Rightarrow> nat
     \<Rightarrow> (string + pyval) \<times> kwargs \<times> nat" where
  "demo_method bic_value c m args kws as x =
     (if m = ''fit'' \<or> m = ''fit_from_w'' then
        (Inr VNone,
         (if c = ''GaussianMixture'' then AList.update ''converged_'' (VBool True) as
          else if c = ''Spanning_Forest'' then AList.update ''current_labels_'' demo_labels as
          else AList.update ''labels_'' demo_labels as),
         Suc x)
      else if m = ''predict'' then (Inr demo_labels, as, x)
      else if m = ''bic'' then (Inr bic_value, as, x)
      else (Inl ''no such method'', as, x))"

definition demo_library :: "nat library" where
  "demo_library =
     \<lparr>lib_init = (\<lambda>c args kws x. (Inr kws, x)),
      lib_method = demo_method (VFloat (Fin 1))\<rparr>"


definition world0 :: "nat world" where
  "world0 = \<lparr>heap = [], events = [], lib_state = 0\<rparr>"

text \<open>A two-row data frame and a weights object over its rows.\<close>

definition demo_array :: pyval where
  "demo_array = VList [VList [VFloat (Fin 1), VFloat (Fin 2)], VList [VFloat (Fin 3), VFloat (Fin 4)]]"

definition demo_X :: pyval where
  "demo_X = VObj ''DataFrame'' [(''values'', demo_array)]"

definition demo_w :: pyval where
  "demo_w = VObj ''W'' [(''sparse'', VList [VList [VInt 0, VInt 1], VList [VInt 1, VInt 0]])]"

section \<open>Notions used in the statements\<close>

text \<open>An adapter takes spatial weights when its first two parameters are \<open>X\<close> and \<open>w\<close>.\<close>

definition takes_weights :: "signature \<Rightarrow> bool" where
  "takes_weights sig = (map fst (take 2 sig) = [''X'', ''w''])"




definition raises_only :: "(exn \<Rightarrow> bool) \<Rightarrow> ('e, 'a) prog \<Rightarrow> bool" where
  "raises_only E p = (\<forall>s e s'. p s = (Inl e, s') \<longrightarrow> E e)"





text \<open>The later world has the earlier log as a prefix and the earlier objects with their classes.\<close>

definition extends :: "'e world \<Rightarrow> 'e world \<Rightarrow> bool" where
  "extends s s' =
     ((\<exists>evs. events s' = events s @ evs) \<and> length (heap s) \<le> length (heap s') \<and>
      (\<forall>i<length (heap s). cls (heap s' ! i) = cls (heap s ! i)))"





text \<open>
  Moving a run into a world that already holds \<open>n\<close> objects: every reference an event
  names is \<open>n\<close> higher.
\<close>

fun shift_event :: "nat \<Rightarrow> event \<Rightarrow> event" where
  "shift_event n (Construct c a k r) = Construct c a k (r + n)"
| "shift_event n (Invoke r m a k) = Invoke (r + n) m a k"
| "shift_event n (SetAttr r name v) = SetAttr (r + n) name v"
| "shift_event n (Warn msg) = Warn msg"

text \<open>
  The world \<open>t\<close> placed after the objects \<open>h0\<close> and the events \<open>e0\<close> of earlier calls.
\<close>

definition embed :: "obj list \<Rightarrow> event list \<Rightarrow> 'e world \<Rightarrow> 'e world" where
  "embed h0 e0 t =
     \<lparr>heap = h0 @ heap t,
      events = e0 @ map (shift_event (length h0)) (events t),
      lib_state = lib_state t\<rparr>"

text \<open>
  The outcome of a run placed in the same way; \<open>sh\<close> moves the references in the result.
\<close>

definition reloc ::
  "(nat \<Rightarrow> 'a \<Rightarrow> 'a) \<Rightarrow> obj list \<Rightarrow> event list \<Rightarrow> (exn + 'a) \<times> 'e world
     \<Rightarrow> (exn + 'a) \<times> 'e world" where
  "reloc sh h0 e0 out =
     (case out of (res, t') \<Rightarrow> (map_sum id (sh (length h0)) res, embed h0 e0 t'))"



text \<open>
  The variables of the model-selection loop, with \<open>best_gmm\<close> moved.
\<close>

definition shift_vars :: "nat \<Rightarrow> gm_vars \<Rightarrow> gm_vars" where
  "shift_vars n v = v\<lparr>best_gmm := map_option (\<lambda>g. g + n) (best_gmm v)\<rparr>"




section \<open>Binding of arguments\<close>

lemma map_of_append_other: "k \<noteq> n \<Longrightarrow> map_of (kw @ [(k, v)]) n = map_of kw n"
  by (induction kw) auto

lemma bind_rest_extra:
  "k \<notin> set (map fst ps) \<Longrightarrow> bind_rest ps (kw @ [(k, v)]) = bind_rest ps kw"
  by (induction ps) (auto simp: map_of_append_other simp del: map_of_append split: option.splits)

lemma bind_args_extra:
  assumes "k \<notin> set (map fst sig)"
  shows "bind_args sig pos (kw @ [(k, v)]) =
           (case bind_args sig pos kw of Inl e \<Rightarrow> Inl e
            | Inr (vs, extra) \<Rightarrow> Inr (vs, extra @ [(k, v)]))"
proof -
  have a: "k \<notin> set (map fst (drop (length pos) sig))"
    using assms by (metis in_set_dropD drop_map)
  have b: "\<And>n. n \<in> set (take (length pos) (map fst sig)) \<Longrightarrow> map_of (kw @ [(k, v)]) n = map_of kw n"
    using assms by (metis in_set_takeD map_of_append_other)
  show ?thesis
    using assms b by (auto simp: bind_args_def bind_rest_extra[OF a] split: sum.splits)
qed

lemma long_call: "length sig < length pos \<Longrightarrow> bind_args sig pos kw = Inl TypeError"
  by (simp add: bind_args_def)

lemma short_list_cases:
  assumes "length (xs :: 'a list) \<le> 6"
  obtains "xs = []" | a where "xs = [a]" | a b where "xs = [a, b]" | a b c where "xs = [a, b, c]"
    | a b c d where "xs = [a, b, c, d]" | a b c d e where "xs = [a, b, c, d, e]"
    | a b c d e f where "xs = [a, b, c, d, e, f]"
proof -
  from assms have "length xs = 0 \<or> length xs = 1 \<or> length xs = 2 \<or> length xs = 3
      \<or> length xs = 4 \<or> length xs = 5 \<or> length xs = 6" by arith
  then show ?thesis
    using that by (elim disjE) (auto simp: length_Suc_conv numeral_eq_Suc)
qed

lemma adapters_ignore_kwargs:
  "map_of cluster_module name = Some (sig, f) \<Longrightarrow> f L vs kws = f L vs kws'"
  by (auto simp: cluster_module_def ward_def kmeans_def affinity_propagation_def spectral_def
      gaussian_mixture_def hdbscan_def ward_spatial_def spenc_def skater_def azp_def max_p_def
      split: if_splits list.splits)

lemma call_adapter_extra:
  assumes "map_of cluster_module name = Some (sig, f :: 'e adapter)" "k \<notin> set (map fst sig)"
  shows "call_adapter (L :: 'e library) name pos (kw @ [(k, v)]) s = call_adapter L name pos kw s"
proof -
  have "f L vs (extra @ [(k, v)]) = f L vs extra" for vs extra
    by (rule adapters_ignore_kwargs[OF assms(1)])
  then show ?thesis
    using assms by (auto simp: call_adapter_def bind_args_extra split: sum.splits)
qed

lemma signature_shape:
  assumes "map_of cluster_module name = Some (sig, f)"
  shows "take 1 sig = [(''X'', None)]"
    and "takes_weights sig \<Longrightarrow> take 2 sig = [(''X'', None), (''w'', None)]"
    and "\<exists>vs extra. bind_args sig [X] [(''w'', W)] = Inr (X # vs, extra)"
    and "takes_weights sig \<longleftrightarrow> name \<in> set [''ward_spatial'', ''spenc'', ''skater'', ''azp'', ''max_p'']"
  using assms
  by (auto simp: cluster_module_def takes_weights_def bind_args_def split: if_splits)

section \<open>The functions of the module and their calling convention\<close>

text \<open>
  Claim C6. The module defines exactly eleven functions: six without spatial weights
  (\<open>ward\<close>, \<open>kmeans\<close>, \<open>affinity_propagation\<close>, \<open>spectral\<close>, \<open>gaussian_mixture\<close>, \<open>hdbscan\<close>)
  and five with them (\<open>ward_spatial\<close>, \<open>spenc\<close>, \<open>skater\<close>, \<open>azp\<close>, \<open>max_p\<close>), and nothing
  else.
\<close>

theorem module_defines_eleven_adapters:
  "map fst (cluster_module :: (string \<times> signature \<times> 'e adapter) list) =
     [''ward'', ''kmeans'', ''affinity_propagation'', ''spectral'', ''gaussian_mixture'',
      ''hdbscan'', ''ward_spatial'', ''spenc'', ''skater'', ''azp'', ''max_p'']
   \<and> map fst (filter (\<lambda>(name, sig, f). \<not> takes_weights sig)
        (cluster_module :: (string \<times> signature \<times> 'e adapter) list)) =
     [''ward'', ''kmeans'', ''affinity_propagation'', ''spectral'', ''gaussian_mixture'',
      ''hdbscan'']
   \<and> map fst (filter (\<lambda>(name, sig, f). takes_weights sig)
        (cluster_module :: (string \<times> signature \<times> 'e adapter) list)) =
     [''ward_spatial'', ''spenc'', ''skater'', ''azp'', ''max_p'']
   \<and> length (cluster_module :: (string \<times> signature \<times> 'e adapter) list) = 11"
  by (simp add: cluster_module_def takes_weights_def)

text \<open>
  Claim C4. For every function of the module: its first parameter is \<open>X\<close>, without a
  default; the five spatial adapters have \<open>w\<close> second, without a default, and the six
  others do not; a keyword that names no parameter is accepted into \<open>kwargs\<close> and
  changes nothing in what the call does; and the call shape \<open>f(X, w=W)\<close> binds for all
  of them.
\<close>

theorem common_calling_convention:
  assumes "map_of cluster_module name = Some (sig, f :: 'e adapter)"
  shows "take 1 sig = [(''X'', None)]
       \<and> (if name \<in> set [''ward_spatial'', ''spenc'', ''skater'', ''azp'', ''max_p'']
          then take 2 sig = [(''X'', None), (''w'', None)]
          else name \<in> set [''ward'', ''kmeans'', ''affinity_propagation'', ''spectral'',
                          ''gaussian_mixture'', ''hdbscan''] \<and> \<not> takes_weights sig)
       \<and> (\<forall>k v pos kw. k \<notin> set (map fst sig) \<longrightarrow>
            bind_args sig pos (kw @ [(k, v)]) =
              (case bind_args sig pos kw of Inl e \<Rightarrow> Inl e
               | Inr (vs, extra) \<Rightarrow> Inr (vs, extra @ [(k, v)])) \<and>
            (\<forall>(L :: 'e library) s.
               call_adapter L name pos (kw @ [(k, v)]) s = call_adapter L name pos kw s))
       \<and> (\<forall>X W. \<exists>vs extra. bind_args sig [X] [(''w'', W)] = Inr (X # vs, extra))"
proof -
  have names: "name \<in> set [''ward_spatial'', ''spenc'', ''skater'', ''azp'', ''max_p''] \<or>
      name \<in> set [''ward'', ''kmeans'', ''affinity_propagation'', ''spectral'',
                          ''gaussian_mixture'', ''hdbscan'']"
    using assms by (auto simp: cluster_module_def split: if_splits)
  show ?thesis
    using signature_shape[OF assms] names call_adapter_extra[OF assms] bind_args_extra[of _ sig]
    by (auto simp del: set_simps)
qed

theorem common_calling_convention_witness:
  "call_adapter demo_library ''ward'' [demo_X] [(''w'', demo_w)] world0 =
     call_adapter demo_library ''ward'' [demo_X] [] world0
   \<and> fst (call_adapter demo_library ''ward'' [demo_X] [(''w'', demo_w)] world0) = Inr 0"
proof -
  obtain sig and f :: "nat adapter"
    where h: "map_of cluster_module ''ward'' = Some (sig, f)"
      and n: "map fst sig = [''X'', ''n_clusters'']"
    by (simp add: cluster_module_def)
  have "''w'' \<notin> set (map fst sig)"
    using n by simp
  with common_calling_convention[OF h]
  have "call_adapter demo_library ''ward'' [demo_X] ([] @ [(''w'', demo_w)]) world0 =
          call_adapter demo_library ''ward'' [demo_X] [] world0"
    by blast
  moreover have "fst (call_adapter demo_library ''ward'' [demo_X] [] world0) = Inr 0"
    by (simp add: call_adapter_def cluster_module_def bind_args_def ward_def bnd_def ret_def
        construct_def invoke_def log_def demo_library_def demo_method_def world0_def Let_def)
  ultimately show ?thesis by simp
qed

lemma unused_keyword:
  "call_adapter L ''affinity_propagation'' pos ((''max_iter'', a) # kw) s =
     call_adapter L ''affinity_propagation'' pos ((''max_iter'', b) # kw) s"
  "call_adapter L ''hdbscan'' pos ((''gen_min_span_tree'', a) # kw) s =
     call_adapter L ''hdbscan'' pos ((''gen_min_span_tree'', b) # kw) s"
  "call_adapter L ''skater'' pos ((''islands'', a) # kw) s =
     call_adapter L ''skater'' pos ((''islands'', b) # kw) s"
proof -
  show "call_adapter L ''affinity_propagation'' pos ((''max_iter'', a) # kw) s =
     call_adapter L ''affinity_propagation'' pos ((''max_iter'', b) # kw) s"
  proof (cases "length pos \<le> 6")
    case True
    then show ?thesis
      by (cases pos rule: short_list_cases)
         (simp_all add: call_adapter_def cluster_module_def bind_args_def affinity_propagation_def
            split: option.splits)
  next
    case False
    then show ?thesis
      by (simp add: call_adapter_def cluster_module_def long_call)
  qed
  show "call_adapter L ''hdbscan'' pos ((''gen_min_span_tree'', a) # kw) s =
     call_adapter L ''hdbscan'' pos ((''gen_min_span_tree'', b) # kw) s"
  proof (cases "length pos \<le> 6")
    case True
    then show ?thesis
      by (cases pos rule: short_list_cases)
         (simp_all add: call_adapter_def cluster_module_def bind_args_def hdbscan_def
            split: option.splits)
  next
    case False
    then show ?thesis
      by (simp add: call_adapter_def cluster_module_def long_call)
  qed
  show "call_adapter L ''skater'' pos ((''islands'', a) # kw) s =
     call_adapter L ''skater'' pos ((''islands'', b) # kw) s"
  proof (cases "length pos \<le> 6")
    case True
    then show ?thesis
      by (cases pos rule: short_list_cases)
         (simp_all add: call_adapter_def cluster_module_def bind_args_def skater_def
            split: option.splits)
  next
    case False
    then show ?thesis
      by (simp add: call_adapter_def cluster_module_def long_call)
  qed
qed

lemma unused_positional:
  "call_adapter L ''affinity_propagation'' [X, damping, preference, verbose, a] kw s =
     call_adapter L ''affinity_propagation'' [X, damping, preference, verbose, b] kw s"
  "call_adapter L ''hdbscan'' [X, min_cluster_size, a] kw s =
     call_adapter L ''hdbscan'' [X, min_cluster_size, b] kw s"
  "call_adapter L ''skater'' [X, w, n_clusters, quorum, trace, a] kw s =
     call_adapter L ''skater'' [X, w, n_clusters, quorum, trace, b] kw s"
  by (simp_all add: call_adapter_def cluster_module_def bind_args_def
          affinity_propagation_def hdbscan_def skater_def)

text \<open>
  Claim C8. \<open>max_iter\<close> of \<open>affinity_propagation\<close>, \<open>gen_min_span_tree\<close> of \<open>hdbscan\<close> and
  \<open>islands\<close> of \<open>skater\<close> are bound and never used: two calls that differ only in the
  value of that argument, given by keyword or by position, have the same outcome and
  leave the same world (the same constructor and method calls with the same arguments,
  the same objects).
\<close>

theorem unused_parameters_do_not_matter:
  "call_adapter L ''affinity_propagation'' pos ((''max_iter'', a) # kw) s =
     call_adapter L ''affinity_propagation'' pos ((''max_iter'', b) # kw) s
   \<and> call_adapter L ''affinity_propagation'' [X, damping, preference, verbose, a] kw s =
     call_adapter L ''affinity_propagation'' [X, damping, preference, verbose, b] kw s
   \<and> call_adapter L ''hdbscan'' pos ((''gen_min_span_tree'', a) # kw) s =
     call_adapter L ''hdbscan'' pos ((''gen_min_span_tree'', b) # kw) s
   \<and> call_adapter L ''hdbscan'' [X, min_cluster_size, a] kw s =
     call_adapter L ''hdbscan'' [X, min_cluster_size, b] kw s
   \<and> call_adapter L ''skater'' pos ((''islands'', a) # kw) s =
     call_adapter L ''skater'' pos ((''islands'', b) # kw) s
   \<and> call_adapter L ''skater'' [X, w, n_clusters, quorum, trace, a] kw s =
     call_adapter L ''skater'' [X, w, n_clusters, quorum, trace, b] kw s"
  by (intro conjI unused_keyword unused_positional)

section \<open>Gaussian mixture: the warning and the model selection loop\<close>























lemma raises_raise: "E e \<Longrightarrow> raises_only E (raise e)"
  by (simp add: raises_only_def raise_def)





lemma raises_getattr: "E AttributeError \<Longrightarrow> raises_only E (getattr r name)"
  by (auto simp: raises_only_def getattr_def split: if_splits option.splits)



























section \<open>Successful calls\<close>






lemma setattr_Inr:
  "setattr r name v s = (Inr u, s') \<Longrightarrow>
     r < length (heap s) \<and> events s' = events s @ [SetAttr r name v] \<and>
     length (heap s') = length (heap s) \<and>
     (\<forall>i. cls (heap s' ! i) = cls (heap s ! i)) \<and>
     attrs (heap s' ! r) = AList.update name v (attrs (heap s ! r))"
  by (auto simp: setattr_def log_def Let_def nth_list_update split: if_splits)


















lemma setattr_extends: "setattr r name v s = (Inr u, s') \<Longrightarrow> extends s s'"
  by (auto simp: extends_def dest!: setattr_Inr)












section \<open>What a successful call returns\<close>











section \<open>The labels attribute\<close>






section \<open>Selecting an algorithm by name\<close>











section \<open>No state is shared between calls\<close>



lemma ret_embed: "ret (sh (length h0) x) (embed h0 e0 t) = reloc sh h0 e0 (ret x t)"
  by (simp add: ret_def reloc_def)



















lemma shift_vars_simps:
  "lowest_bic (shift_vars n v) = lowest_bic v"
  "bic (shift_vars n v) = bic v"
  "best_gmm (shift_vars n v) = map_option (\<lambda>g. g + n) (best_gmm v)"
  by (simp_all add: shift_vars_def)













end
